theory Spec2Isabelle
  imports Main "HOL-Library.AList"
begin

section \<open>Data model of \<^verbatim>\<open>src/index.ts\<close>\<close>

text \<open>
  The class \<^verbatim>\<open>StorageArea\<close> is a record of its own fields; its methods are functions
  that take the instance and the world around it (the browser's storage backend and
  the objects allocated so far) and return them updated, together with the value the
  method returns or the exception it throws.

  Modelling conventions.
  \<^item> A plain object (\<^verbatim>\<open>defaults\<close>, the items read from the backend, \<^verbatim>\<open>_accessors\<close>,
    \<^verbatim>\<open>_listeners\<close>, \<^verbatim>\<open>changes\<close>, \<^verbatim>\<open>STORAGE_AREAS\<close>) is the association list of its own
    enumerable properties, in enumeration order, together with the members it inherits
    from \<^verbatim>\<open>Object.prototype\<close>: \<^verbatim>\<open>key in obj\<close> and \<^verbatim>\<open>obj[key]\<close> see the inherited names,
    \<^verbatim>\<open>for (key in obj)\<close> and the inherited \<^verbatim>\<open>hasOwnProperty\<close> see the own ones only.
  \<^item> A method called as \<^verbatim>\<open>this.m(...)\<close> or \<^verbatim>\<open>storage.m(...)\<close> is looked up on the instance
    first: a property that \<^verbatim>\<open>_makeProperties\<close> has defined under the name \<^verbatim>\<open>m\<close> is found
    before the method of the class.
  \<^item> A \<^verbatim>\<open>Set\<close> is the list of its elements in insertion order, without duplicates.
  \<^item> A promise is the value it resolves to or the error it rejects with; one method call
    is one step (the interleaving of two asynchronous calls is not modelled) and the
    backend's own calls always succeed.
  \<^item> What a function value does when it is called is given by an environment: a
    listener returns or throws; a function that the defaults hold under the name
    \<^verbatim>\<open>hasOwnProperty\<close> returns a truth value or throws. Functions that call back into
    the instance are not modelled.
\<close>

datatype jsval =
    JUndefined
  | JNull
  | JBool bool
  | JNum int
  | JStr string
  | JFun nat
  | JProto string

text \<open>\<open>JProto n\<close> is the member named \<open>n\<close> that a plain object inherits from
  \<^verbatim>\<open>Object.prototype\<close>: a built-in function, or, for \<^verbatim>\<open>__proto__\<close>, the prototype object
  itself.\<close>

definition object_prototype_keys :: "string list" where
  "object_prototype_keys =
     [''constructor'', ''__defineGetter__'', ''__defineSetter__'', ''hasOwnProperty'',
      ''__lookupGetter__'', ''__lookupSetter__'', ''isPrototypeOf'', ''propertyIsEnumerable'',
      ''toString'', ''valueOf'', ''__proto__'', ''toLocaleString'']"

definition inherited :: "string \<Rightarrow> bool" where
  "inherited k = (k \<in> set object_prototype_keys)"

text \<open>\<^verbatim>\<open>if (v)\<close>: the values that count as true.\<close>

fun truthy :: "jsval \<Rightarrow> bool" where
  "truthy JUndefined = False"
| "truthy JNull = False"
| "truthy (JBool b) = b"
| "truthy (JNum n) = (n \<noteq> 0)"
| "truthy (JStr s) = (s \<noteq> [])"
| "truthy (JFun f) = True"
| "truthy (JProto n) = True"

text \<open>\<^verbatim>\<open>typeof v === 'string'\<close> and \<^verbatim>\<open>typeof v === 'function'\<close>.\<close>

fun is_string :: "jsval \<Rightarrow> bool" where
  "is_string (JStr s) = True"
| "is_string v = False"

fun is_function :: "jsval \<Rightarrow> bool" where
  "is_function (JFun f) = True"
| "is_function (JProto n) = (n \<noteq> ''__proto__'')"
| "is_function v = False"

datatype error = Error string | TypeError string | RangeError string

type_synonym 'v dict = "(string \<times> 'v) list"

definition keys :: "'v dict \<Rightarrow> string list" where
  "keys d = map fst d"

text \<open>The inherited \<^verbatim>\<open>d.hasOwnProperty(key)\<close>: the own keys.\<close>

definition has_key :: "'v dict \<Rightarrow> string \<Rightarrow> bool" where
  "has_key d k = (k \<in> set (keys d))"

text \<open>\<^verbatim>\<open>key in d\<close>: the own keys and the inherited names.\<close>

definition in_obj :: "'v dict \<Rightarrow> string \<Rightarrow> bool" where
  "in_obj d k = (has_key d k \<or> inherited k)"

text \<open>\<^verbatim>\<open>d[key]\<close> on an object of values: an own property, else an inherited member, else
  \<^verbatim>\<open>undefined\<close>.\<close>

definition obj_get :: "jsval dict \<Rightarrow> string \<Rightarrow> jsval" where
  "obj_get d k =
     (case map_of d k of
        Some v \<Rightarrow> v
      | None \<Rightarrow> if inherited k then JProto k else JUndefined)"

text \<open>\<^verbatim>\<open>d[key] = v\<close>: an assignment to \<^verbatim>\<open>__proto__\<close> creates no own property, unless the
  object has that property itself: the inherited setter takes the value (and ignores
  it, or makes it the prototype of \<open>d\<close> when it is an object).\<close>

definition obj_set :: "'v dict \<Rightarrow> string \<Rightarrow> 'v \<Rightarrow> 'v dict" where
  "obj_set d k v =
     (if k = ''__proto__'' \<and> \<not> has_key d k then d else AList.update k v d)"

text \<open>\<^verbatim>\<open>StorageAreaName\<close> and the table \<^verbatim>\<open>STORAGE_AREAS\<close> of backend handles.\<close>

datatype area_handle = AreaLocal | AreaManaged | AreaSync

definition STORAGE_AREAS :: "area_handle dict" where
  "STORAGE_AREAS = [(''local'', AreaLocal), (''managed'', AreaManaged), (''sync'', AreaSync)]"

text \<open>What the field \<^verbatim>\<open>_storage\<close> holds, \<^verbatim>\<open>STORAGE_AREAS[name]\<close>: a backend area, or a member
  that the table inherits.\<close>

datatype storage_ref = Area area_handle | NotAnArea string

text \<open>\<^verbatim>\<open>StorageChange<T>\<close>: both fields are optional.\<close>

record storage_change =
  oldValue :: "jsval option"
  newValue :: "jsval option"

text \<open>
  A key of \<^verbatim>\<open>_listeners\<close>: a setting's name, or the symbol \<^verbatim>\<open>AllSettings\<close>, which the
  source casts to \<^verbatim>\<open>string\<close> and which is a \<^verbatim>\<open>Symbol\<close> when the code runs.
\<close>

datatype lkey = Key string | AllSettings

text \<open>\<^verbatim>\<open>IStorageAccessor<T>\<close>: the two data fields; its five methods are closures over
  the instance and the key, defined below as functions of the accessor.\<close>

record accessor_obj =
  acc_key :: string
  acc_default :: jsval

text \<open>The fields of a \<^verbatim>\<open>StorageArea\<close> instance. \<^verbatim>\<open>accessors\<close> holds references into
  the heap of accessor objects; \<^verbatim>\<open>onChanged_id\<close> is the identity of the arrow function
  \<^verbatim>\<open>_onChanged\<close>; \<^verbatim>\<open>properties\<close> are the getters that \<^verbatim>\<open>_makeProperties\<close> defines, each
  with the key its closure captured.\<close>

record storage_area =
  defaults :: "jsval dict"
  storage :: storage_ref
  storageName :: string
  accessors :: "nat dict"
  listeners :: "(lkey \<times> jsval list) list"
  onChanged_id :: nat
  properties :: "string dict"

text \<open>One call on a backend area, as the source makes it.\<close>

datatype bcall =
    BGetAll area_handle
  | BGet area_handle string
  | BSet area_handle "jsval dict"

text \<open>
  The world of an instance: the items stored in each backend area, the calls made on
  the backend so far (oldest first), the handlers subscribed to
  \<^verbatim>\<open>browser.storage.onChanged\<close>, and the accessor objects allocated so far (a reference
  is an index into \<^verbatim>\<open>heap\<close>).
\<close>

record world =
  store :: "area_handle \<Rightarrow> jsval dict"
  calls :: "bcall list"
  subscribers :: "nat list"
  heap :: "accessor_obj list"

text \<open>The outcome of a method: what it returns or throws, and the instance and the
  world after it.\<close>

type_synonym 'a res = "(error + 'a) \<times> storage_area \<times> world"

section \<open>The backend\<close>

text \<open>
  \<^verbatim>\<open>webextension-polyfill-ts\<close> is not part of the repository. Its three calls follow
  the contract the specification gives: a read of everything returns the stored items,
  a read of one key returns the items restricted to that key when it is present, a
  write stores every item of the mapping it is given. The objects they return are
  plain objects.
\<close>

definition backend_get_all :: "world \<Rightarrow> area_handle \<Rightarrow> jsval dict \<times> world" where
  "backend_get_all w a = (store w a, w\<lparr>calls := calls w @ [BGetAll a]\<rparr>)"

definition backend_get :: "world \<Rightarrow> area_handle \<Rightarrow> string \<Rightarrow> jsval dict \<times> world" where
  "backend_get w a k =
     (filter (\<lambda>p. fst p = k) (store w a), w\<lparr>calls := calls w @ [BGet a k]\<rparr>)"

fun write_items :: "jsval dict \<Rightarrow> jsval dict \<Rightarrow> jsval dict" where
  "write_items [] st = st"
| "write_items ((k, v) # items) st = write_items items (AList.update k v st)"

definition backend_set :: "world \<Rightarrow> area_handle \<Rightarrow> jsval dict \<Rightarrow> world" where
  "backend_set w a items =
     w\<lparr>store := (store w)(a := write_items items (store w a)),
       calls := calls w @ [BSet a items]\<rparr>"

section \<open>Accessors and the lookup of methods\<close>

text \<open>What \<^verbatim>\<open>this._accessors[key]\<close> reads when it is not \<^verbatim>\<open>undefined\<close>, and what
  \<^verbatim>\<open>accessor\<close> returns: a reference to an accessor object, or a member that the object
  \<^verbatim>\<open>_accessors\<close> inherits. Both count as true.\<close>

datatype aval = ARef nat | AProto string

definition acc_lookup :: "nat dict \<Rightarrow> string \<Rightarrow> aval option" where
  "acc_lookup d k =
     (case map_of d k of
        Some ref \<Rightarrow> Some (ARef ref)
      | None \<Rightarrow> if inherited k then Some (AProto k) else None)"

text \<open>The body of \<^verbatim>\<open>_makeAccessor\<close>. The assignment \<^verbatim>\<open>this._accessors[key] = accessor\<close>
  creates no own property for the key \<^verbatim>\<open>__proto__\<close>; \<^verbatim>\<open>accessor\<close>, the only caller, never
  gets here with that key, for which the lookup finds the inherited member.\<close>

definition makeAccessor :: "storage_area \<Rightarrow> world \<Rightarrow> string \<Rightarrow> aval res" where
  "makeAccessor sa w key =
     (let accessor = \<lparr>acc_key = key, acc_default = obj_get (defaults sa) key\<rparr>;
          ref = length (heap w)
      in (Inr (ARef ref),
          sa\<lparr>accessors := obj_set (accessors sa) key ref\<rparr>,
          w\<lparr>heap := heap w @ [accessor]\<rparr>))"

text \<open>
  The call \<^verbatim>\<open>this._makeAccessor(key)\<close>. When the instance has a generated property of
  that name, reading it runs the getter \<^verbatim>\<open>() => this.accessor(k)\<close> with the key \<open>k\<close> the
  getter captured: if \<^verbatim>\<open>accessor\<close> is itself a generated property, or if no accessor is
  memoized for \<open>k\<close>, the getter comes back to the same read and the recursion ends in
  a \<^verbatim>\<open>RangeError\<close>; otherwise the getter returns the memoized accessor, and calling that
  object throws a \<^verbatim>\<open>TypeError\<close>.
\<close>

definition call_makeAccessor :: "storage_area \<Rightarrow> world \<Rightarrow> string \<Rightarrow> aval res" where
  "call_makeAccessor sa w key =
     (case map_of (properties sa) ''_makeAccessor'' of
        None \<Rightarrow> makeAccessor sa w key
      | Some k \<Rightarrow>
          if has_key (properties sa) ''accessor'' then
            (Inl (RangeError ''Maximum call stack size exceeded''), sa, w)
          else (case acc_lookup (accessors sa) k of
                  None \<Rightarrow> (Inl (RangeError ''Maximum call stack size exceeded''), sa, w)
                | Some v \<Rightarrow> (Inl (TypeError ''this._makeAccessor is not a function''), sa, w)))"

text \<open>The body of \<^verbatim>\<open>accessor\<close>: \<^verbatim>\<open>this._accessors[key] || this._makeAccessor(key)\<close>.\<close>

definition accessor_body :: "storage_area \<Rightarrow> world \<Rightarrow> string \<Rightarrow> aval res" where
  "accessor_body sa w key =
     (case acc_lookup (accessors sa) key of
        Some v \<Rightarrow> (Inr v, sa, w)
      | None \<Rightarrow> call_makeAccessor sa w key)"

text \<open>The call \<^verbatim>\<open>this.accessor(key)\<close> or \<^verbatim>\<open>storage.accessor(key)\<close>. When the instance
  has a generated property named \<^verbatim>\<open>accessor\<close>, reading it runs a getter that reads it
  again: the recursion ends in a \<^verbatim>\<open>RangeError\<close>.\<close>

definition accessor :: "storage_area \<Rightarrow> world \<Rightarrow> string \<Rightarrow> aval res" where
  "accessor sa w key =
     (if has_key (properties sa) ''accessor''
      then (Inl (RangeError ''Maximum call stack size exceeded''), sa, w)
      else accessor_body sa w key)"

text \<open>Reading the property \<^verbatim>\<open>name\<close> that \<^verbatim>\<open>_makeProperties\<close> defined runs its getter,
  \<^verbatim>\<open>() => this.accessor(key)\<close>; \<open>None\<close> when no such property was defined.\<close>

definition get_property :: "storage_area \<Rightarrow> world \<Rightarrow> string \<Rightarrow> aval res option" where
  "get_property sa w name =
     (case map_of (properties sa) name of
        None \<Rightarrow> None
      | Some key \<Rightarrow> Some (accessor sa w key))"

text \<open>
  Looking up the method \<open>m\<close> of the class on the instance, to call it: without a
  generated property of that name the method is found; with one, the getter runs, and
  either it throws or the call of what it returns throws, since that is not a function.
\<close>

definition resolve_method ::
  "storage_area \<Rightarrow> world \<Rightarrow> string \<Rightarrow> error option \<times> storage_area \<times> world" where
  "resolve_method sa w m =
     (case get_property sa w m of
        None \<Rightarrow> (None, sa, w)
      | Some (Inl e, sa', w') \<Rightarrow> (Some e, sa', w')
      | Some (Inr v, sa', w') \<Rightarrow> (Some (TypeError (m @ '' is not a function'')), sa', w'))"

definition method_call ::
  "storage_area \<Rightarrow> world \<Rightarrow> string \<Rightarrow> (storage_area \<Rightarrow> world \<Rightarrow> 'a res) \<Rightarrow> 'a res" where
  "method_call sa w m body =
     (case resolve_method sa w m of
        (None, sa', w') \<Rightarrow> body sa' w'
      | (Some e, sa', w') \<Rightarrow> (Inl e, sa', w'))"

section \<open>Reading and writing settings\<close>

text \<open>What \<^verbatim>\<open>get\<close> resolves to: all the items, or one value.\<close>

datatype get_result = Items "jsval dict" | Value jsval

definition get_body :: "string option \<Rightarrow> storage_area \<Rightarrow> world \<Rightarrow> get_result res" where
  "get_body key sa w =
     (case storage sa of
        NotAnArea n \<Rightarrow> (Inl (TypeError ''this._storage.get is not a function''), sa, w)
      | Area a \<Rightarrow>
          (case key of
             None \<Rightarrow> (case backend_get_all w a of (items, w') \<Rightarrow> (Inr (Items items), sa, w'))
           | Some k \<Rightarrow>
               (case backend_get w a k of (items, w') \<Rightarrow> (Inr (Value (obj_get items k)), sa, w'))))"

definition get :: "storage_area \<Rightarrow> world \<Rightarrow> string option \<Rightarrow> get_result res" where
  "get sa w key = method_call sa w ''get'' (get_body key)"

text \<open>The first argument of \<^verbatim>\<open>set\<close>: a key (with the value as second argument) or a
  dictionary of items.\<close>

datatype key_or_items = AKey string | AItems "jsval dict"

definition set_body :: "key_or_items \<Rightarrow> jsval \<Rightarrow> storage_area \<Rightarrow> world \<Rightarrow> unit res" where
  "set_body key val sa w =
     (let items = (case key of AKey k \<Rightarrow> [(k, val)] | AItems its \<Rightarrow> its)
      in case storage sa of
           NotAnArea n \<Rightarrow> (Inl (TypeError ''this._storage.set is not a function''), sa, w)
         | Area a \<Rightarrow> (Inr (), sa, backend_set w a items))"

definition set_sa :: "storage_area \<Rightarrow> world \<Rightarrow> key_or_items \<Rightarrow> jsval \<Rightarrow> unit res" where
  "set_sa sa w key val = method_call sa w ''set'' (set_body key val)"

definition isDefined_body :: "string \<Rightarrow> storage_area \<Rightarrow> world \<Rightarrow> bool res" where
  "isDefined_body key sa w =
     (case get sa w (Some key) of
        (Inl e, sa', w') \<Rightarrow> (Inl e, sa', w')
      | (Inr (Value v), sa', w') \<Rightarrow> (Inr (v \<noteq> JUndefined), sa', w')
      | (Inr (Items its), sa', w') \<Rightarrow> (Inr True, sa', w'))"

definition isDefined :: "storage_area \<Rightarrow> world \<Rightarrow> string \<Rightarrow> bool res" where
  "isDefined sa w key = method_call sa w ''isDefined'' (isDefined_body key)"

definition reset_body :: "string \<Rightarrow> storage_area \<Rightarrow> world \<Rightarrow> unit res" where
  "reset_body key sa w =
     (if in_obj (defaults sa) key
      then set_sa sa w (AKey key) (obj_get (defaults sa) key)
      else (Inl (Error (''No default value for setting: '' @ key)), sa, w))"

definition reset :: "storage_area \<Rightarrow> world \<Rightarrow> string \<Rightarrow> unit res" where
  "reset sa w key = method_call sa w ''reset'' (reset_body key)"

definition resetAll_body :: "storage_area \<Rightarrow> world \<Rightarrow> unit res" where
  "resetAll_body sa w = set_sa sa w (AItems (defaults sa)) JUndefined"

definition resetAll :: "storage_area \<Rightarrow> world \<Rightarrow> unit res" where
  "resetAll sa w = method_call sa w ''resetAll'' resetAll_body"

text \<open>What a function value returns, as a truth value, or throws when it is called as
  \<^verbatim>\<open>this.defaults.hasOwnProperty(key)\<close>.\<close>

type_synonym hop_env = "jsval \<Rightarrow> string \<Rightarrow> error + bool"

text \<open>\<^verbatim>\<open>this.defaults.hasOwnProperty(key)\<close>: the inherited function, unless the defaults
  have a property of that name themselves, whose value is then called.\<close>

definition defaults_hasOwnProperty :: "hop_env \<Rightarrow> jsval dict \<Rightarrow> string \<Rightarrow> error + bool" where
  "defaults_hasOwnProperty hop d key =
     (case map_of d ''hasOwnProperty'' of
        None \<Rightarrow> Inr (has_key d key)
      | Some v \<Rightarrow>
          if is_function v then hop v key
          else Inl (TypeError ''this.defaults.hasOwnProperty is not a function''))"

text \<open>The loop of \<^verbatim>\<open>initDefaults\<close> over the keys of \<^verbatim>\<open>defaults\<close>, building
  \<^verbatim>\<open>unsetItems\<close>.\<close>

fun initDefaults_loop ::
  "hop_env \<Rightarrow> jsval dict \<Rightarrow> jsval dict \<Rightarrow> string list \<Rightarrow> jsval dict \<Rightarrow> error + jsval dict" where
  "initDefaults_loop hop dflts setItems [] unsetItems = Inr unsetItems"
| "initDefaults_loop hop dflts setItems (key # ks) unsetItems =
     (case defaults_hasOwnProperty hop dflts key of
        Inl e \<Rightarrow> Inl e
      | Inr own \<Rightarrow>
          if own \<and> \<not> in_obj setItems key
          then initDefaults_loop hop dflts setItems ks (obj_set unsetItems key (obj_get dflts key))
          else initDefaults_loop hop dflts setItems ks unsetItems)"

definition initDefaults_body :: "hop_env \<Rightarrow> storage_area \<Rightarrow> world \<Rightarrow> unit res" where
  "initDefaults_body hop sa w =
     (case get sa w None of
        (Inl e, sa', w') \<Rightarrow> (Inl e, sa', w')
      | (Inr (Value v), sa', w') \<Rightarrow>
          (Inl (TypeError ''setItems is not an object''), sa', w')
      | (Inr (Items setItems), sa', w') \<Rightarrow>
          (case initDefaults_loop hop (defaults sa') setItems (keys (defaults sa')) [] of
             Inl e \<Rightarrow> (Inl e, sa', w')
           | Inr unsetItems \<Rightarrow> set_sa sa' w' (AItems unsetItems) JUndefined))"

definition initDefaults :: "hop_env \<Rightarrow> storage_area \<Rightarrow> world \<Rightarrow> unit res" where
  "initDefaults hop sa w = method_call sa w ''initDefaults'' (initDefaults_body hop)"

section \<open>Listeners\<close>

text \<open>\<^verbatim>\<open>Set.add\<close> and \<^verbatim>\<open>Set.delete\<close>.\<close>

definition set_add :: "jsval list \<Rightarrow> jsval \<Rightarrow> jsval list" where
  "set_add s x = (if x \<in> set s then s else s @ [x])"

definition set_delete :: "jsval list \<Rightarrow> jsval \<Rightarrow> jsval list" where
  "set_delete s x = removeAll x s"

text \<open>\<^verbatim>\<open>key in this._listeners\<close>: an own key, or for a string an inherited name.\<close>

fun inherited_lkey :: "lkey \<Rightarrow> bool" where
  "inherited_lkey (Key k) = inherited k"
| "inherited_lkey AllSettings = False"

definition in_listeners :: "(lkey \<times> jsval list) list \<Rightarrow> lkey \<Rightarrow> bool" where
  "in_listeners ls key = (map_of ls key \<noteq> None \<or> inherited_lkey key)"

definition getListenerArgs :: "jsval \<Rightarrow> jsval \<Rightarrow> error + (lkey \<times> jsval)" where
  "getListenerArgs a0 a1 =
     (if truthy a1
      then (case a0 of
              JStr s \<Rightarrow> Inr (Key s, a1)
            | _ \<Rightarrow> Inl (TypeError ''Expected key to be a string''))
      else (if \<not> is_function a0
            then Inl (TypeError ''Expected callback to be a function'')
            else Inr (AllSettings, a0)))"

text \<open>The call \<^verbatim>\<open>this._getListenerArgs(a0, a1)\<close>.\<close>

definition call_getListenerArgs ::
  "storage_area \<Rightarrow> world \<Rightarrow> jsval \<Rightarrow> jsval \<Rightarrow> (lkey \<times> jsval) res" where
  "call_getListenerArgs sa w a0 a1 =
     method_call sa w ''_getListenerArgs'' (\<lambda>sa' w'. (getListenerArgs a0 a1, sa', w'))"

text \<open>When the key is only an inherited name, \<^verbatim>\<open>this._listeners[key]\<close> is a member of
  \<^verbatim>\<open>Object.prototype\<close>, which has no method \<^verbatim>\<open>add\<close> or \<^verbatim>\<open>delete\<close>.\<close>

definition addListener_body :: "jsval \<Rightarrow> jsval \<Rightarrow> storage_area \<Rightarrow> world \<Rightarrow> unit res" where
  "addListener_body a0 a1 sa w =
     (case call_getListenerArgs sa w a0 a1 of
        (Inl e, sa', w') \<Rightarrow> (Inl e, sa', w')
      | (Inr (key, callback), sa', w') \<Rightarrow>
          if in_listeners (listeners sa') key then
            (case map_of (listeners sa') key of
               Some s \<Rightarrow>
                 (Inr (),
                  sa'\<lparr>listeners := AList.update key (set_add s callback) (listeners sa')\<rparr>, w')
             | None \<Rightarrow>
                 (Inl (TypeError ''this._listeners[key].add is not a function''), sa', w'))
          else (Inr (), sa'\<lparr>listeners := AList.update key [callback] (listeners sa')\<rparr>, w'))"

definition addListener :: "storage_area \<Rightarrow> world \<Rightarrow> jsval \<Rightarrow> jsval \<Rightarrow> unit res" where
  "addListener sa w a0 a1 = method_call sa w ''addListener'' (addListener_body a0 a1)"

definition removeListener_body :: "jsval \<Rightarrow> jsval \<Rightarrow> storage_area \<Rightarrow> world \<Rightarrow> unit res" where
  "removeListener_body a0 a1 sa w =
     (case call_getListenerArgs sa w a0 a1 of
        (Inl e, sa', w') \<Rightarrow> (Inl e, sa', w')
      | (Inr (key, callback), sa', w') \<Rightarrow>
          if in_listeners (listeners sa') key then
            (case map_of (listeners sa') key of
               Some s \<Rightarrow>
                 (Inr (),
                  sa'\<lparr>listeners := AList.update key (set_delete s callback) (listeners sa')\<rparr>, w')
             | None \<Rightarrow>
                 (Inl (TypeError ''this._listeners[key].delete is not a function''), sa', w'))
          else (Inr (), sa', w'))"

definition removeListener :: "storage_area \<Rightarrow> world \<Rightarrow> jsval \<Rightarrow> jsval \<Rightarrow> unit res" where
  "removeListener sa w a0 a1 = method_call sa w ''removeListener'' (removeListener_body a0 a1)"

text \<open>The closures of an accessor object, as \<^verbatim>\<open>_makeAccessor\<close> builds them.\<close>

definition acc_get :: "storage_area \<Rightarrow> world \<Rightarrow> accessor_obj \<Rightarrow> get_result res" where
  "acc_get sa w a = get sa w (Some (acc_key a))"

definition acc_set :: "storage_area \<Rightarrow> world \<Rightarrow> accessor_obj \<Rightarrow> jsval \<Rightarrow> unit res" where
  "acc_set sa w a val = set_sa sa w (AKey (acc_key a)) val"

definition acc_reset :: "storage_area \<Rightarrow> world \<Rightarrow> accessor_obj \<Rightarrow> unit res" where
  "acc_reset sa w a = reset sa w (acc_key a)"

definition acc_addListener :: "storage_area \<Rightarrow> world \<Rightarrow> accessor_obj \<Rightarrow> jsval \<Rightarrow> unit res" where
  "acc_addListener sa w a callback = addListener sa w (JStr (acc_key a)) callback"

definition acc_removeListener ::
  "storage_area \<Rightarrow> world \<Rightarrow> accessor_obj \<Rightarrow> jsval \<Rightarrow> unit res" where
  "acc_removeListener sa w a callback = removeListener sa w (JStr (acc_key a)) callback"

section \<open>Construction and disposal\<close>

text \<open>
  The own properties of the instance when the constructor calls \<^verbatim>\<open>_makeProperties\<close>:
  the four fields with an initialiser and the two the constructor has assigned. The
  methods of the class are properties of \<^verbatim>\<open>StorageArea.prototype\<close>, not of the instance.
\<close>

definition own_fields :: "string list" where
  "own_fields =
     [''_storageName'', ''_accessors'', ''_listeners'', ''_onChanged'', ''defaults'', ''_storage'']"

definition prototype_methods :: "string list" where
  "prototype_methods =
     [''dispose'', ''get'', ''initDefaults'', ''isDefined'', ''reset'', ''resetAll'', ''set'',
      ''accessor'', ''addListener'', ''removeListener'', ''_getListenerArgs'',
      ''_makeAccessor'', ''_makeProperties'']"

text \<open>\<^verbatim>\<open>this.hasOwnProperty(key)\<close> during construction.\<close>

definition this_hasOwnProperty :: "string \<Rightarrow> bool" where
  "this_hasOwnProperty key = (key \<in> set own_fields)"

fun makeProperties_loop ::
  "hop_env \<Rightarrow> jsval dict \<Rightarrow> string list \<Rightarrow> string dict \<Rightarrow> error + string dict" where
  "makeProperties_loop hop dflts [] descriptors = Inr descriptors"
| "makeProperties_loop hop dflts (key # ks) descriptors =
     (case defaults_hasOwnProperty hop dflts key of
        Inl e \<Rightarrow> Inl e
      | Inr own \<Rightarrow>
          if own \<and> \<not> this_hasOwnProperty key
          then makeProperties_loop hop dflts ks (obj_set descriptors key key)
          else makeProperties_loop hop dflts ks descriptors)"

definition makeProperties :: "hop_env \<Rightarrow> jsval dict \<Rightarrow> error + string dict" where
  "makeProperties hop dflts = makeProperties_loop hop dflts (keys dflts) []"

record options =
  opt_defaults :: "jsval dict"
  opt_storageArea :: "string option"

text \<open>\<^verbatim>\<open>browser.storage.onChanged.addListener\<close> and \<^verbatim>\<open>removeListener\<close>.\<close>

definition feed_add :: "world \<Rightarrow> nat \<Rightarrow> world" where
  "feed_add w h = (if h \<in> set (subscribers w) then w else w\<lparr>subscribers := subscribers w @ [h]\<rparr>)"

definition feed_remove :: "world \<Rightarrow> nat \<Rightarrow> world" where
  "feed_remove w h = w\<lparr>subscribers := removeAll h (subscribers w)\<rparr>"

text \<open>\<^verbatim>\<open>StorageArea.create\<close>, that is the constructor; \<open>h\<close> is the identity of the arrow
  function \<^verbatim>\<open>_onChanged\<close> created for the new instance. The test
  \<^verbatim>\<open>name in STORAGE_AREAS\<close> lets an inherited name through, and \<^verbatim>\<open>_storage\<close> is then the
  inherited member.\<close>

definition create :: "hop_env \<Rightarrow> options \<Rightarrow> world \<Rightarrow> nat \<Rightarrow> error + (storage_area \<times> world)" where
  "create hop opts w h =
     (let name = (case opt_storageArea opts of
                    None \<Rightarrow> ''local''
                  | Some s \<Rightarrow> if s \<noteq> [] then s else ''local'')
      in if \<not> in_obj STORAGE_AREAS name then Inl (Error (''Invalid storage area: '' @ name))
         else (case makeProperties hop (opt_defaults opts) of
                 Inl e \<Rightarrow> Inl e
               | Inr descriptors \<Rightarrow>
                   Inr (\<lparr>defaults = opt_defaults opts,
                         storage = (case map_of STORAGE_AREAS name of
                                      Some a \<Rightarrow> Area a
                                    | None \<Rightarrow> NotAnArea name),
                         storageName = name, accessors = [], listeners = [],
                         onChanged_id = h, properties = descriptors\<rparr>,
                        feed_add w h)))"

text \<open>\<^verbatim>\<open>for (let key in this._listeners)\<close> visits the properties whose key is a string; a
  property whose key is a symbol is not enumerated.\<close>

fun for_in_keys :: "(lkey \<times> 'a) list \<Rightarrow> string list" where
  "for_in_keys [] = []"
| "for_in_keys ((Key k, v) # ls) = k # for_in_keys ls"
| "for_in_keys ((AllSettings, v) # ls) = for_in_keys ls"

text \<open>The loop of \<^verbatim>\<open>dispose\<close>. \<^verbatim>\<open>this._listeners.hasOwnProperty(key)\<close> is the inherited
  function unless a set of listeners is stored under that very name: calling a set
  throws.\<close>

fun dispose_loop ::
  "string list \<Rightarrow> (lkey \<times> jsval list) list \<Rightarrow> error option \<times> (lkey \<times> jsval list) list" where
  "dispose_loop [] ls = (None, ls)"
| "dispose_loop (key # ks) ls =
     (if map_of ls (Key ''hasOwnProperty'') \<noteq> None
      then (Some (TypeError ''this._listeners.hasOwnProperty is not a function''), ls)
      else if map_of ls (Key key) \<noteq> None
      then dispose_loop ks (AList.delete (Key key) ls)
      else dispose_loop ks ls)"

definition dispose_body :: "storage_area \<Rightarrow> world \<Rightarrow> unit res" where
  "dispose_body sa w =
     (let w' = feed_remove w (onChanged_id sa)
      in case dispose_loop (for_in_keys (listeners sa)) (listeners sa) of
           (None, ls) \<Rightarrow> (Inr (), sa\<lparr>listeners := ls\<rparr>, w')
         | (Some e, ls) \<Rightarrow> (Inl e, sa\<lparr>listeners := ls\<rparr>, w'))"

definition dispose :: "storage_area \<Rightarrow> world \<Rightarrow> unit res" where
  "dispose sa w = method_call sa w ''dispose'' dispose_body"

section \<open>Dispatch of change events\<close>

text \<open>
  What a function does when it is called as a listener with a change and a key:
  \<open>None\<close> when it returns, \<open>Some e\<close> when it throws \<open>e\<close>. A call is recorded with the
  listener, the change record it got (\<open>None\<close> for \<^verbatim>\<open>undefined\<close>) and the key.
\<close>

type_synonym listener_env = "jsval \<Rightarrow> storage_change option \<Rightarrow> string \<Rightarrow> error option"

type_synonym call = "jsval \<times> storage_change option \<times> string"

text \<open>\<^verbatim>\<open>listener(changes[key], key)\<close>: calling a value that is not a function throws.\<close>

definition invoke ::
  "listener_env \<Rightarrow> jsval \<Rightarrow> storage_change option \<Rightarrow> string \<Rightarrow> call list \<times> error option" where
  "invoke env listener change key =
     (if is_function listener then ([(listener, change, key)], env listener change key)
      else ([], Some (TypeError ''listener is not a function'')))"

text \<open>The inner function \<^verbatim>\<open>_send\<close> on a set: the calls made, and the exception that ended
  the loop if one did.\<close>

fun send ::
  "listener_env \<Rightarrow> storage_change dict \<Rightarrow> string \<Rightarrow> jsval list \<Rightarrow> call list \<times> error option" where
  "send env changes key [] = ([], None)"
| "send env changes key (listener # list) =
     (case invoke env listener (map_of changes key) key of
        (t, Some e) \<Rightarrow> (t, Some e)
      | (t, None) \<Rightarrow> (case send env changes key list of (t', r) \<Rightarrow> (t @ t', r)))"

text \<open>\<^verbatim>\<open>if (bucket in this._listeners) _send(key, this._listeners[bucket])\<close>: when the
  bucket is only an inherited name, \<^verbatim>\<open>_send\<close> gets a member of \<^verbatim>\<open>Object.prototype\<close>, and
  \<^verbatim>\<open>for (const listener of list)\<close> throws at once, since that is not iterable.\<close>

definition send_if_in ::
  "listener_env \<Rightarrow> storage_area \<Rightarrow> storage_change dict \<Rightarrow> string \<Rightarrow> lkey \<Rightarrow>
   call list \<times> error option" where
  "send_if_in env sa changes key bucket =
     (if in_listeners (listeners sa) bucket then
        (case map_of (listeners sa) bucket of
           Some list \<Rightarrow> send env changes key list
         | None \<Rightarrow> ([], Some (TypeError ''list is not iterable'')))
      else ([], None))"

fun onChanged_loop ::
  "listener_env \<Rightarrow> storage_area \<Rightarrow> storage_change dict \<Rightarrow> string list \<Rightarrow>
   call list \<times> error option" where
  "onChanged_loop env sa changes [] = ([], None)"
| "onChanged_loop env sa changes (key # ks) =
     (case send_if_in env sa changes key (Key key) of
        (t1, Some e) \<Rightarrow> (t1, Some e)
      | (t1, None) \<Rightarrow>
          (case send_if_in env sa changes key AllSettings of
             (t2, Some e) \<Rightarrow> (t1 @ t2, Some e)
           | (t2, None) \<Rightarrow>
               (case onChanged_loop env sa changes ks of (t3, r) \<Rightarrow> (t1 @ t2 @ t3, r))))"

definition onChanged ::
  "listener_env \<Rightarrow> storage_area \<Rightarrow> storage_change dict \<Rightarrow> string \<Rightarrow> call list \<times> error option" where
  "onChanged env sa changes areaName =
     (if areaName \<noteq> storageName sa then ([], None)
      else onChanged_loop env sa changes (keys changes))"

text \<open>The backend's event feed delivers a change event to the handlers that are
  subscribed to it: the instance's handler runs when it is among them.\<close>

definition deliver ::
  "listener_env \<Rightarrow> storage_area \<Rightarrow> world \<Rightarrow> storage_change dict \<Rightarrow> string \<Rightarrow>
   call list \<times> error option" where
  "deliver env sa w changes areaName =
     (if onChanged_id sa \<in> set (subscribers w) then onChanged env sa changes areaName
      else ([], None))"

section \<open>The order of a dispatch\<close>

text \<open>The listeners registered under a key of \<^verbatim>\<open>_listeners\<close>, in the order of their
  set; none when the key is not an own one.\<close>

definition bucket :: "storage_area \<Rightarrow> lkey \<Rightarrow> jsval list" where
  "bucket sa b = (case map_of (listeners sa) b of None \<Rightarrow> [] | Some list \<Rightarrow> list)"

text \<open>The call a listener gets for a changed key.\<close>

definition call_of :: "storage_change dict \<Rightarrow> string \<Rightarrow> jsval \<Rightarrow> call" where
  "call_of changes key listener = (listener, map_of changes key, key)"

text \<open>
  What one change event asks the handler to do, step by step: for each changed key in
  turn, for the bucket of that key and then for the bucket of \<^verbatim>\<open>AllSettings\<close>, a call of
  each listener of the bucket in the order of its set, or a failure at once where the
  bucket is only an inherited name.
\<close>

datatype dstep = Call call | Fail error

definition plan_bucket :: "storage_area \<Rightarrow> storage_change dict \<Rightarrow> string \<Rightarrow> lkey \<Rightarrow> dstep list" where
  "plan_bucket sa changes key b =
     (case map_of (listeners sa) b of
        Some list \<Rightarrow> map (\<lambda>l. Call (call_of changes key l)) list
      | None \<Rightarrow> if inherited_lkey b then [Fail (TypeError ''list is not iterable'')] else [])"

definition plan :: "storage_area \<Rightarrow> storage_change dict \<Rightarrow> dstep list" where
  "plan sa changes =
     concat (map (\<lambda>key. plan_bucket sa changes key (Key key) @
                         plan_bucket sa changes key AllSettings)
               (keys changes))"

text \<open>Taking the steps one after the other until one throws.\<close>

fun run_plan :: "listener_env \<Rightarrow> dstep list \<Rightarrow> call list \<times> error option" where
  "run_plan env [] = ([], None)"
| "run_plan env (Fail e # ps) = ([], Some e)"
| "run_plan env (Call (listener, change, key) # ps) =
     (case invoke env listener change key of
        (t, Some e) \<Rightarrow> (t, Some e)
      | (t, None) \<Rightarrow> (case run_plan env ps of (t', r) \<Rightarrow> (t @ t', r)))"

text \<open>The call is one of a function that returns.\<close>

fun returns :: "listener_env \<Rightarrow> call \<Rightarrow> bool" where
  "returns env (listener, change, key) =
     (is_function listener \<and> env listener change key = None)"

section \<open>Instances used to run the definitions\<close>

text \<open>A function under the name \<^verbatim>\<open>hasOwnProperty\<close> that returns \<^verbatim>\<open>false\<close>; none of the
  instances below has one.\<close>

definition ex_hop :: hop_env where
  "ex_hop v key = Inr False"

text \<open>An instance over the local area with defaults \<^verbatim>\<open>{a: 2, b: 3}\<close>, its options, a
  world where that area holds \<^verbatim>\<open>{a: 1}\<close>, and that world before the instance was
  created.\<close>

definition ex_sa :: storage_area where
  "ex_sa = \<lparr>defaults = [(''a'', JNum 2), (''b'', JNum 3)], storage = Area AreaLocal,
            storageName = ''local'', accessors = [], listeners = [], onChanged_id = 0,
            properties = [(''a'', ''a''), (''b'', ''b'')]\<rparr>"

definition ex_world :: world where
  "ex_world = \<lparr>store = (\<lambda>a. [])(AreaLocal := [(''a'', JNum 1)]), calls = [],
               subscribers = [0], heap = []\<rparr>"

definition ex_opts :: options where
  "ex_opts = \<lparr>opt_defaults = [(''a'', JNum 2), (''b'', JNum 3)], opt_storageArea = None\<rparr>"

definition ex_world0 :: world where
  "ex_world0 = ex_world\<lparr>subscribers := []\<rparr>"

text \<open>An instance with two listeners on \<^verbatim>\<open>a\<close> and one on every setting, one with only
  the latter, a change event for \<^verbatim>\<open>a\<close> and \<^verbatim>\<open>b\<close> and one for \<^verbatim>\<open>toString\<close> and \<^verbatim>\<open>a\<close>,
  listeners that all return, and listeners of which one throws.\<close>

definition ex_sa_l :: storage_area where
  "ex_sa_l = ex_sa\<lparr>listeners := [(Key ''a'', [JFun 1, JFun 2]), (AllSettings, [JFun 3])]\<rparr>"

definition ex_sa_w :: storage_area where
  "ex_sa_w = ex_sa\<lparr>listeners := [(AllSettings, [JFun 3])]\<rparr>"

definition ex_change_a :: storage_change where
  "ex_change_a = \<lparr>oldValue = Some (JNum 1), newValue = Some (JNum 5)\<rparr>"

definition ex_change_b :: storage_change where
  "ex_change_b = \<lparr>oldValue = None, newValue = Some (JNum 3)\<rparr>"

definition ex_changes :: "storage_change dict" where
  "ex_changes = [(''a'', ex_change_a), (''b'', ex_change_b)]"

definition ex_changes_ts :: "storage_change dict" where
  "ex_changes_ts = [(''toString'', ex_change_b), (''a'', ex_change_a)]"

definition env_quiet :: listener_env where
  "env_quiet f change key = None"

definition env_throw_at :: "nat \<Rightarrow> error \<Rightarrow> listener_env" where
  "env_throw_at n e f change key = (if f = JFun n then Some e else None)"

text \<open>Options whose defaults have a key named as a method and one named as a field,
  options whose defaults have the key \<^verbatim>\<open>accessor\<close>, and the options and the instance
  over the local area with the defaults \<^verbatim>\<open>{toString: 1, b: 3}\<close>.\<close>

definition ex_opts_get :: options where
  "ex_opts_get = \<lparr>opt_defaults = [(''get'', JNum 1), (''defaults'', JNum 2)],
                  opt_storageArea = None\<rparr>"

definition ex_opts_acc :: options where
  "ex_opts_acc = \<lparr>opt_defaults = [(''accessor'', JNum 1)], opt_storageArea = None\<rparr>"

definition ex_opts_ts :: options where
  "ex_opts_ts = \<lparr>opt_defaults = [(''toString'', JNum 1), (''b'', JNum 3)],
                 opt_storageArea = None\<rparr>"

definition ex_sa_ts :: storage_area where
  "ex_sa_ts = ex_sa\<lparr>defaults := [(''toString'', JNum 1), (''b'', JNum 3)],
                    properties := [(''toString'', ''toString''), (''b'', ''b'')]\<rparr>"

section \<open>Running the definitions\<close>

lemmas eval_defs = method_call_def resolve_method_def get_property_def accessor_def
  accessor_body_def call_makeAccessor_def makeAccessor_def acc_lookup_def inherited_def
  object_prototype_keys_def has_key_def keys_def in_obj_def obj_get_def obj_set_def Let_def

lemma ex_create: "create ex_hop ex_opts ex_world0 0 = Inr (ex_sa, ex_world)"
  by (simp add: create_def ex_opts_def ex_world0_def ex_world_def ex_sa_def STORAGE_AREAS_def
      makeProperties_def defaults_hasOwnProperty_def this_hasOwnProperty_def own_fields_def
      feed_add_def eval_defs)

section \<open>Plain objects and method lookup\<close>

lemma has_key_map_of: "\<not> has_key d k \<Longrightarrow> map_of d k = None"
  by (simp add: has_key_def keys_def map_of_eq_None_iff)

lemma method_call_unshadowed:
  "\<not> has_key (properties sa) m \<Longrightarrow> method_call sa w m body = body sa w"
  by (simp add: method_call_def resolve_method_def get_property_def has_key_map_of)

lemma not_inherited_proto: "\<not> inherited k \<Longrightarrow> k \<noteq> ''__proto__''"
  by (auto simp: inherited_def object_prototype_keys_def)

lemma not_inherited_hop: "\<not> inherited k \<Longrightarrow> k \<noteq> ''hasOwnProperty''"
  by (auto simp: inherited_def object_prototype_keys_def)

lemma obj_get_own: "map_of d k = Some v \<Longrightarrow> obj_get d k = v"
  by (simp add: obj_get_def)

lemma obj_get_absent: "\<not> has_key d k \<Longrightarrow> \<not> inherited k \<Longrightarrow> obj_get d k = JUndefined"
  by (simp add: obj_get_def has_key_map_of)

lemma filter_absent: "\<not> has_key d k \<Longrightarrow> filter (\<lambda>p. fst p = k) d = []"
  by (induction d) (auto simp: has_key_def keys_def)

lemma map_of_obj_set:
  "k \<noteq> ''__proto__'' \<Longrightarrow>
   map_of (obj_set acc key v) k = (if k = key then Some v else map_of acc k)"
  by (simp add: obj_set_def update_conv')

lemma update_fresh: "k \<notin> set (keys st) \<Longrightarrow> AList.update k v st = st @ [(k, v)]"
  by (induction st) (auto simp: keys_def)

lemma write_items_append:
  "distinct (keys items) \<Longrightarrow> set (keys items) \<inter> set (keys st) = {} \<Longrightarrow>
   write_items items st = st @ items"
proof (induction items arbitrary: st)
  case Nil
  then show ?case by simp
next
  case (Cons p items)
  obtain k v where p: "p = (k, v)" by (cases p)
  from Cons.prems p have fresh: "k \<notin> set (keys st)" and d: "distinct (keys items)"
    and nk: "k \<notin> set (keys items)" and disj: "set (keys items) \<inter> set (keys st) = {}"
    by (auto simp: keys_def)
  have "set (keys items) \<inter> set (keys (st @ [(k, v)])) = {}"
    using nk disj by (auto simp: keys_def)
  with Cons.IH [OF d] have "write_items items (st @ [(k, v)]) = (st @ [(k, v)]) @ items"
    by blast
  with fresh p show ?case by (simp add: update_fresh)
qed

section \<open>Generated properties\<close>

lemma makeProperties_loop_plain:
  "map_of dflts ''hasOwnProperty'' = None \<Longrightarrow> k \<noteq> ''__proto__'' \<Longrightarrow>
   \<exists>ds. makeProperties_loop hop dflts ks acc = Inr ds \<and>
        map_of ds k = (if k \<in> set ks \<and> has_key dflts k \<and> \<not> this_hasOwnProperty k
                       then Some k else map_of acc k)"
proof (induction ks arbitrary: acc)
  case Nil
  then show ?case by simp
next
  case (Cons key ks)
  show ?case
  proof (cases "has_key dflts key \<and> \<not> this_hasOwnProperty key")
    case True
    with Cons.IH [OF Cons.prems, of "obj_set acc key key"] Cons.prems show ?thesis
      by (auto simp: defaults_hasOwnProperty_def map_of_obj_set)
  next
    case False
    with Cons.IH [OF Cons.prems, of acc] Cons.prems show ?thesis
      by (auto simp: defaults_hasOwnProperty_def)
  qed
qed

text \<open>What construction exposes when the defaults have no property \<^verbatim>\<open>hasOwnProperty\<close>
  of their own: a property for each key of the defaults that is not an own field of
  the instance, the key \<^verbatim>\<open>__proto__\<close> left aside.\<close>

lemma create_exposes:
  assumes "create hop opts w h = Inr (sa, w')"
    and "map_of (opt_defaults opts) ''hasOwnProperty'' = None" and "k \<noteq> ''__proto__''"
  shows "map_of (properties sa) k =
           (if has_key (opt_defaults opts) k \<and> k \<notin> set own_fields then Some k else None)"
proof -
  from makeProperties_loop_plain [OF assms(2) assms(3), of hop "keys (opt_defaults opts)" "[]"]
  obtain ds where ds: "makeProperties hop (opt_defaults opts) = Inr ds"
    and m: "map_of ds k = (if k \<in> set (keys (opt_defaults opts)) \<and> has_key (opt_defaults opts) k
          \<and> \<not> this_hasOwnProperty k then Some k else None)"
    by (auto simp: makeProperties_def)
  from assms(1) ds have "properties sa = ds"
    by (auto simp: create_def Let_def split: if_splits)
  with m show ?thesis by (auto simp: has_key_def this_hasOwnProperty_def)
qed

text \<open>
  Claim C1 at the defaults \<^verbatim>\<open>{get: 1, defaults: 2}\<close>: the key \<^verbatim>\<open>defaults\<close>, an own field
  of the instance, is skipped; the key \<^verbatim>\<open>get\<close>, the name of a method, is not: the
  instance gets a property \<^verbatim>\<open>get\<close> that resolves to the accessor of that key.
\<close>

theorem create_exposes_method_name:
  "''get'' \<in> set prototype_methods \<and> ''get'' \<notin> set own_fields \<and>
   ''defaults'' \<in> set own_fields \<and>
   (case create ex_hop ex_opts_get ex_world0 0 of
      Inl e \<Rightarrow> False
    | Inr (sa, w) \<Rightarrow>
        properties sa = [(''get'', ''get'')] \<and>
        get_property sa w ''get'' = Some (accessor sa w ''get'') \<and>
        get_property sa w ''defaults'' = None)"
  by (simp add: create_def ex_opts_get_def STORAGE_AREAS_def makeProperties_def
      defaults_hasOwnProperty_def this_hasOwnProperty_def own_fields_def prototype_methods_def
      eval_defs)

section \<open>Dispatch\<close>

lemma send_run_plan:
  "send env changes key list = run_plan env (map (\<lambda>l. Call (call_of changes key l)) list)"
  by (induction list) (simp_all add: call_of_def)

lemma run_plan_append:
  "run_plan env (xs @ ys) =
     (case run_plan env xs of
        (t, Some e) \<Rightarrow> (t, Some e)
      | (t, None) \<Rightarrow> (case run_plan env ys of (t', r) \<Rightarrow> (t @ t', r)))"
  by (induction env xs rule: run_plan.induct) (auto split: prod.splits option.splits)

lemma send_if_in_run_plan:
  "send_if_in env sa changes key b = run_plan env (plan_bucket sa changes key b)"
  by (simp add: send_if_in_def plan_bucket_def in_listeners_def send_run_plan
      split: option.splits)

lemma onChanged_loop_run_plan:
  "onChanged_loop env sa changes ks =
     run_plan env
       (concat (map (\<lambda>key. plan_bucket sa changes key (Key key) @
                         plan_bucket sa changes key AllSettings) ks))"
  by (induction ks)
    (auto simp: send_if_in_run_plan run_plan_append split: prod.splits option.splits)

lemma onChanged_run_plan:
  "onChanged env sa changes areaName =
     (if areaName \<noteq> storageName sa then ([], None) else run_plan env (plan sa changes))"
  by (simp add: onChanged_def plan_def onChanged_loop_run_plan)

lemma run_plan_returns:
  "list_all (returns env) cs \<Longrightarrow>
   run_plan env (map Call cs @ rest) = (cs @ fst (run_plan env rest), snd (run_plan env rest))"
  by (induction cs) (auto simp: invoke_def split: prod.splits)

lemma run_plan_throw:
  "list_all (returns env) pre \<Longrightarrow> is_function l \<Longrightarrow> env l c k = Some e \<Longrightarrow>
   run_plan env (map Call pre @ Call (l, c, k) # post) = (pre @ [(l, c, k)], Some e)"
  by (simp add: run_plan_returns invoke_def)

lemma ex_plan:
  "plan ex_sa_l ex_changes =
     map Call [(JFun 1, Some ex_change_a, ''a'')] @ Call (JFun 2, Some ex_change_a, ''a'') #
     [Call (JFun 3, Some ex_change_a, ''a''), Call (JFun 3, Some ex_change_b, ''b'')]"
  by (simp add: plan_def plan_bucket_def ex_sa_l_def ex_sa_def ex_changes_def keys_def
      call_of_def inherited_def object_prototype_keys_def)

text \<open>When no bucket of a change event is only an inherited name and every listener
  returns, the handler calls, for each changed key in turn, the listeners of the key
  and then the listeners of \<^verbatim>\<open>AllSettings\<close>, each set in its order.\<close>

lemma onChanged_order:
  assumes "areaName = storageName sa" and "plan sa changes = map Call cs"
    and "list_all (returns env) cs"
  shows "onChanged env sa changes areaName = (cs, None)"
  using assms run_plan_returns [of env cs "[]"] by (simp add: onChanged_run_plan)

lemma onChanged_other_area:
  "areaName \<noteq> storageName sa \<Longrightarrow> onChanged env sa changes areaName = ([], None)"
  by (simp add: onChanged_def)

text \<open>
  Claim C8 at a change event for \<^verbatim>\<open>toString\<close> and \<^verbatim>\<open>a\<close>, on an instance with two
  listeners on \<^verbatim>\<open>a\<close> and one on every setting, all of which return: no listener is
  registered under \<^verbatim>\<open>toString\<close>, yet \<^verbatim>\<open>'toString' in this._listeners\<close> holds, \<^verbatim>\<open>_send\<close> gets
  the inherited function instead of a set, and the handler throws before it has called
  any listener: neither the listener of every setting nor the listeners of \<^verbatim>\<open>a\<close> run.
\<close>

theorem onChanged_inherited_key_throws:
  "bucket ex_sa_l (Key ''a'') = [JFun 1, JFun 2] \<and>
   bucket ex_sa_l AllSettings = [JFun 3] \<and>
   bucket ex_sa_l (Key ''toString'') = [] \<and>
   onChanged env_quiet ex_sa_l ex_changes_ts ''local'' =
     ([], Some (TypeError ''list is not iterable''))"
  by (simp add: onChanged_def ex_sa_l_def ex_sa_def ex_changes_ts_def bucket_def
      send_if_in_def in_listeners_def invoke_def env_quiet_def eval_defs)

text \<open>
  Claim C2, as the code has it. For every change event that the handler dispatches, an
  exception thrown by a listener ends the dispatch at that listener: the listeners
  called before it have run, it is the last one called, the remaining listeners of the
  same dispatch are not called, and the exception goes to the caller of the handler.
\<close>

theorem onChanged_stops_at_exception:
  "areaName = storageName sa \<Longrightarrow>
   plan sa changes = map Call pre @ Call (l, c, k) # post \<Longrightarrow>
   list_all (returns env) pre \<Longrightarrow> is_function l \<Longrightarrow> env l c k = Some e \<Longrightarrow>
   onChanged env sa changes areaName = (pre @ [(l, c, k)], Some e)"
  by (simp add: onChanged_run_plan run_plan_throw)

theorem onChanged_stops_at_exception_witness:
  "''local'' = storageName ex_sa_l \<and>
   plan ex_sa_l ex_changes =
     map Call [(JFun 1, Some ex_change_a, ''a'')] @ Call (JFun 2, Some ex_change_a, ''a'') #
     [Call (JFun 3, Some ex_change_a, ''a''), Call (JFun 3, Some ex_change_b, ''b'')] \<and>
   list_all (returns (env_throw_at 2 (TypeError ''x''))) [(JFun 1, Some ex_change_a, ''a'')] \<and>
   is_function (JFun 2) \<and>
   env_throw_at 2 (TypeError ''x'') (JFun 2) (Some ex_change_a) ''a'' = Some (TypeError ''x'') \<and>
   onChanged (env_throw_at 2 (TypeError ''x'')) ex_sa_l ex_changes ''local'' =
     ([(JFun 1, Some ex_change_a, ''a''), (JFun 2, Some ex_change_a, ''a'')],
      Some (TypeError ''x''))"
proof -
  have n: "''local'' = storageName ex_sa_l" by (simp add: ex_sa_l_def ex_sa_def)
  have q: "list_all (returns (env_throw_at 2 (TypeError ''x'')))
     [(JFun 1, Some ex_change_a, ''a'')]" by (simp add: env_throw_at_def)
  have f: "is_function (JFun 2)" by simp
  have t: "env_throw_at 2 (TypeError ''x'') (JFun 2) (Some ex_change_a) ''a'' =
      Some (TypeError ''x'')"
    by (simp add: env_throw_at_def)
  from onChanged_stops_at_exception [OF n ex_plan q f t] n ex_plan q f t
  show ?thesis by simp
qed

text \<open>The claim as stated fails: the first listener of \<^verbatim>\<open>a\<close> throws, and neither the
  second listener of \<^verbatim>\<open>a\<close> nor the listener of every setting is called.\<close>

theorem listener_exception_counterexample:
  "bucket ex_sa_l (Key ''a'') = [JFun 1, JFun 2] \<and>
   bucket ex_sa_l AllSettings = [JFun 3] \<and>
   env_throw_at 1 (Error ''boom'') (JFun 1) (Some ex_change_a) ''a'' = Some (Error ''boom'') \<and>
   onChanged (env_throw_at 1 (Error ''boom'')) ex_sa_l ex_changes ''local'' =
     ([(JFun 1, Some ex_change_a, ''a'')], Some (Error ''boom''))"
  by (simp add: onChanged_def ex_sa_l_def ex_sa_def ex_changes_def bucket_def
      send_if_in_def in_listeners_def invoke_def env_throw_at_def eval_defs)

section \<open>Arguments of the listener operations\<close>

text \<open>
  Claim C3, as the code has it. On an instance on which none of \<^verbatim>\<open>addListener\<close>,
  \<^verbatim>\<open>removeListener\<close> and \<^verbatim>\<open>_getListenerArgs\<close> is shadowed by a generated property,
  \<^verbatim>\<open>addListener\<close> and \<^verbatim>\<open>removeListener\<close> fail with a \<^verbatim>\<open>TypeError\<close> and leave the instance and
  the world as they were when the second argument is true and the first is not a
  string, and when the second argument is missing or false and the first is not a
  function.
\<close>

theorem listener_args_rejected:
  "\<not> has_key (properties sa) ''addListener'' \<and> \<not> has_key (properties sa) ''removeListener'' \<and>
   \<not> has_key (properties sa) ''_getListenerArgs'' \<longrightarrow>
   (truthy a1 \<and> \<not> is_string a0 \<longrightarrow>
      addListener sa w a0 a1 = (Inl (TypeError ''Expected key to be a string''), sa, w) \<and>
      removeListener sa w a0 a1 = (Inl (TypeError ''Expected key to be a string''), sa, w)) \<and>
   (\<not> truthy a1 \<and> \<not> is_function a0 \<longrightarrow>
      addListener sa w a0 a1 = (Inl (TypeError ''Expected callback to be a function''), sa, w) \<and>
      removeListener sa w a0 a1 =
        (Inl (TypeError ''Expected callback to be a function''), sa, w))"
  by (cases a0)
    (auto simp: addListener_def removeListener_def addListener_body_def
      removeListener_body_def call_getListenerArgs_def getListenerArgs_def
      method_call_unshadowed)

theorem listener_args_rejected_witness:
  "\<not> has_key (properties ex_sa) ''addListener'' \<and>
   \<not> has_key (properties ex_sa) ''removeListener'' \<and>
   \<not> has_key (properties ex_sa) ''_getListenerArgs'' \<and>
   truthy (JFun 1) \<and> \<not> is_string (JNum 5) \<and>
   addListener ex_sa ex_world (JNum 5) (JFun 1) =
     (Inl (TypeError ''Expected key to be a string''), ex_sa, ex_world) \<and>
   \<not> truthy JUndefined \<and> \<not> is_function (JStr ''a'') \<and>
   removeListener ex_sa ex_world (JStr ''a'') JUndefined =
     (Inl (TypeError ''Expected callback to be a function''), ex_sa, ex_world)"
proof -
  have p: "\<not> has_key (properties ex_sa) ''addListener'' \<and>
      \<not> has_key (properties ex_sa) ''removeListener'' \<and>
      \<not> has_key (properties ex_sa) ''_getListenerArgs''"
    by (simp add: ex_sa_def has_key_def keys_def)
  show ?thesis
    using p listener_args_rejected [of ex_sa "JFun 1" "JNum 5" ex_world]
      listener_args_rejected [of ex_sa JUndefined "JStr ''a''" ex_world]
    by simp
qed

text \<open>The claim as stated fails: with a key and the number 42 as callback,
  \<^verbatim>\<open>addListener\<close> registers the number and \<^verbatim>\<open>removeListener\<close> succeeds.\<close>

theorem listener_not_function_counterexample:
  "\<not> is_function (JNum 42) \<and>
   addListener ex_sa ex_world (JStr ''a'') (JNum 42) =
     (Inr (), ex_sa\<lparr>listeners := [(Key ''a'', [JNum 42])]\<rparr>, ex_world) \<and>
   listeners ex_sa = [] \<and>
   removeListener ex_sa_l ex_world (JStr ''a'') (JNum 42) = (Inr (), ex_sa_l, ex_world)"
  by (simp add: addListener_def addListener_body_def removeListener_def
      removeListener_body_def call_getListenerArgs_def getListenerArgs_def in_listeners_def
      ex_sa_def ex_sa_l_def set_delete_def eval_defs)

section \<open>Disposal\<close>

text \<open>On an instance whose method \<^verbatim>\<open>dispose\<close> is not shadowed, the handler is no longer
  subscribed after \<^verbatim>\<open>dispose()\<close>, and the backend's feed delivers nothing to it.\<close>

lemma dispose_detaches:
  assumes "\<not> has_key (properties sa) ''dispose''" and "dispose sa w = (r, sa', w')"
  shows "deliver env sa' w' changes areaName = ([], None)"
  using assms
  by (auto simp: dispose_def dispose_body_def method_call_unshadowed Let_def deliver_def
      feed_remove_def split: prod.splits option.splits)

text \<open>
  Claim C9 at \<^verbatim>\<open>addListener(f)\<close> followed by \<^verbatim>\<open>dispose()\<close>: the handler is no longer
  subscribed, and the set of listeners of \<^verbatim>\<open>AllSettings\<close> is still in \<^verbatim>\<open>_listeners\<close>, so
  that the handler, if it is called, still calls \<^verbatim>\<open>f\<close>.
\<close>

theorem dispose_keeps_wildcard_bucket:
  "addListener ex_sa ex_world (JFun 3) JUndefined = (Inr (), ex_sa_w, ex_world) \<and>
   listeners ex_sa_w = [(AllSettings, [JFun 3])] \<and>
   fst (dispose ex_sa_w ex_world) = Inr () \<and>
   listeners (fst (snd (dispose ex_sa_w ex_world))) = [(AllSettings, [JFun 3])] \<and>
   subscribers (snd (snd (dispose ex_sa_w ex_world))) = [] \<and>
   onChanged env_quiet (fst (snd (dispose ex_sa_w ex_world))) ex_changes ''local'' =
     ([(JFun 3, Some ex_change_a, ''a''), (JFun 3, Some ex_change_b, ''b'')], None)"
  by (simp add: addListener_def addListener_body_def call_getListenerArgs_def
      getListenerArgs_def in_listeners_def ex_sa_w_def ex_sa_def ex_world_def
      dispose_def dispose_body_def feed_remove_def onChanged_def ex_changes_def
      send_if_in_def invoke_def env_quiet_def eval_defs)

section \<open>Reset\<close>

text \<open>Away from the inherited names and on an instance whose methods are not shadowed,
  \<^verbatim>\<open>reset\<close> writes the declared default or fails without a call on the backend.\<close>

lemma reset_declared_default:
  assumes "\<not> has_key (properties sa) ''reset''" and "\<not> has_key (properties sa) ''set''"
    and "storage sa = Area a"
  shows "has_key (defaults sa) key \<Longrightarrow>
           reset sa w key = (Inr (), sa, backend_set w a [(key, obj_get (defaults sa) key)])"
    and "\<not> has_key (defaults sa) key \<Longrightarrow> \<not> inherited key \<Longrightarrow>
           reset sa w key = (Inl (Error (''No default value for setting: '' @ key)), sa, w)"
  using assms
  by (simp_all add: reset_def reset_body_def set_sa_def set_body_def method_call_unshadowed
      in_obj_def)

text \<open>
  Claim C4 at \<^verbatim>\<open>reset('toString')\<close> with the defaults \<^verbatim>\<open>{a: 2, b: 3}\<close>: the defaults have
  no such key, yet \<^verbatim>\<open>'toString' in this.defaults\<close> holds, and \<^verbatim>\<open>reset\<close> does not fail: it
  makes a bulk write of the inherited member under that key.
\<close>

theorem reset_inherited_name_writes:
  "\<not> has_key (defaults ex_sa) ''toString'' \<and>
   fst (reset ex_sa ex_world ''toString'') \<noteq>
     Inl (Error ''No default value for setting: toString'') \<and>
   calls (snd (snd (reset ex_sa ex_world ''toString''))) =
     [BSet AreaLocal [(''toString'', JProto ''toString'')]]"
  by (simp add: reset_def reset_body_def set_sa_def set_body_def backend_set_def
      ex_sa_def ex_world_def eval_defs)

section \<open>Initialising the defaults\<close>

text \<open>The items that \<^verbatim>\<open>initDefaults\<close> is meant to write: the defaults that are not
  stored.\<close>

lemma initDefaults_loop_plain:
  assumes "map_of d0 ''hasOwnProperty'' = None"
  shows "\<forall>p\<in>set d. map_of d0 (fst p) = Some (snd p) \<and> \<not> inherited (fst p) \<Longrightarrow>
         distinct (keys d) \<Longrightarrow> set (keys d) \<inter> set (keys acc) = {} \<Longrightarrow>
         initDefaults_loop hop d0 si (keys d) acc =
           Inr (acc @ filter (\<lambda>p. \<not> has_key si (fst p)) d)"
proof (induction d arbitrary: acc)
  case Nil
  then show ?case by (simp add: keys_def)
next
  case (Cons p d)
  obtain k v where p: "p = (k, v)" by (cases p)
  from Cons.prems p have m: "map_of d0 k = Some v" and ni: "\<not> inherited k"
    and rest: "\<forall>q\<in>set d. map_of d0 (fst q) = Some (snd q) \<and> \<not> inherited (fst q)"
    and d: "distinct (keys d)" and nk: "k \<notin> set (keys d)" and fresh: "k \<notin> set (keys acc)"
    and disj: "set (keys d) \<inter> set (keys acc) = {}"
    by (auto simp: keys_def)
  have own: "defaults_hasOwnProperty hop d0 k = Inr True"
    using assms m by (auto simp: defaults_hasOwnProperty_def has_key_def keys_def
        dest!: map_of_SomeD intro: rev_image_eqI)
  have set: "obj_set acc k (obj_get d0 k) = acc @ [(k, v)]"
    using fresh not_inherited_proto [OF ni] m
    by (simp add: obj_set_def obj_get_own update_fresh)
  have disj': "set (keys d) \<inter> set (keys (acc @ [(k, v)])) = {}"
    using nk disj by (auto simp: keys_def)
  show ?case
  proof (cases "has_key si k")
    case True
    with Cons.IH [OF rest d disj] own p show ?thesis
      by (simp add: keys_def in_obj_def)
  next
    case False
    with Cons.IH [OF rest d disj'] own p ni set show ?thesis
      by (simp add: keys_def in_obj_def)
  qed
qed

text \<open>On an instance whose methods are not shadowed and whose defaults have no key
  that is an inherited name, \<^verbatim>\<open>initDefaults\<close> reads everything, then writes the defaults
  that are not stored, in one write; what is stored stays as it is.\<close>

lemma initDefaults_plain:
  assumes "\<not> has_key (properties sa) ''initDefaults''" and "\<not> has_key (properties sa) ''get''"
    and "\<not> has_key (properties sa) ''set''" and "storage sa = Area a"
    and "distinct (keys (defaults sa))"
    and "\<forall>k\<in>set (keys (defaults sa)). \<not> inherited k"
  shows "initDefaults hop sa w =
           (Inr (), sa,
            backend_set (snd (backend_get_all w a)) a
              (filter (\<lambda>p. \<not> has_key (store w a) (fst p)) (defaults sa)))"
    and "store (snd (snd (initDefaults hop sa w))) a =
           store w a @ filter (\<lambda>p. \<not> has_key (store w a) (fst p)) (defaults sa)"
    and "calls (snd (snd (initDefaults hop sa w))) =
           calls w @ [BGetAll a,
                      BSet a (filter (\<lambda>p. \<not> has_key (store w a) (fst p)) (defaults sa))]"
proof -
  let ?u = "filter (\<lambda>p. \<not> has_key (store w a) (fst p)) (defaults sa)"
  have "inherited ''hasOwnProperty''" by (simp add: inherited_def object_prototype_keys_def)
  with assms(6) have nh: "map_of (defaults sa) ''hasOwnProperty'' = None"
    by (auto simp: map_of_eq_None_iff keys_def)
  have own: "\<forall>p\<in>set (defaults sa). map_of (defaults sa) (fst p) = Some (snd p) \<and>
      \<not> inherited (fst p)"
    using assms(5,6) by (auto simp: keys_def)
  have loop: "initDefaults_loop hop (defaults sa) (store w a) (keys (defaults sa)) [] = Inr ?u"
    using initDefaults_loop_plain [OF nh own assms(5), of "[]" hop "store w a"]
    by (simp add: keys_def)
  show eq: "initDefaults hop sa w =
      (Inr (), sa, backend_set (snd (backend_get_all w a)) a ?u)"
    using assms(1-4) loop
    by (simp add: initDefaults_def initDefaults_body_def get_def get_body_def set_sa_def
        set_body_def method_call_unshadowed backend_get_all_def)
  have d: "distinct (keys ?u)"
    using assms(5) by (simp add: keys_def distinct_map_filter)
  have disj: "set (keys ?u) \<inter> set (keys (store w a)) = {}"
    by (auto simp: keys_def has_key_def)
  show "store (snd (snd (initDefaults hop sa w))) a = store w a @ ?u"
    using write_items_append [OF d disj]
    by (simp add: eq backend_set_def backend_get_all_def)
  show "calls (snd (snd (initDefaults hop sa w))) = calls w @ [BGetAll a, BSet a ?u]"
    by (simp add: eq backend_set_def backend_get_all_def)
qed

text \<open>
  Claim C5 at the defaults \<^verbatim>\<open>{toString: 1, b: 3}\<close> with \<^verbatim>\<open>{a: 1}\<close> stored: the key
  \<^verbatim>\<open>toString\<close> is a key of the defaults that the stored map does not have, yet
  \<^verbatim>\<open>'toString' in setItems\<close> holds, and the one bulk write has the key \<^verbatim>\<open>b\<close> only: the
  default of \<^verbatim>\<open>toString\<close> is not written.
\<close>

theorem initDefaults_skips_inherited_name:
  "create ex_hop ex_opts_ts ex_world0 0 = Inr (ex_sa_ts, ex_world) \<and>
   has_key (defaults ex_sa_ts) ''toString'' \<and>
   \<not> has_key (store ex_world AreaLocal) ''toString'' \<and>
   fst (initDefaults ex_hop ex_sa_ts ex_world) = Inr () \<and>
   calls (snd (snd (initDefaults ex_hop ex_sa_ts ex_world))) =
     [BGetAll AreaLocal, BSet AreaLocal [(''b'', JNum 3)]] \<and>
   store (snd (snd (initDefaults ex_hop ex_sa_ts ex_world))) AreaLocal =
     [(''a'', JNum 1), (''b'', JNum 3)]"
  by (simp add: initDefaults_def initDefaults_body_def get_def get_body_def
      backend_get_all_def defaults_hasOwnProperty_def set_sa_def set_body_def backend_set_def
      ex_sa_ts_def ex_sa_def ex_world_def ex_world0_def ex_opts_ts_def create_def
      STORAGE_AREAS_def makeProperties_def this_hasOwnProperty_def own_fields_def
      feed_add_def eval_defs)

section \<open>Reading\<close>

text \<open>Away from the inherited names and on an instance whose method \<^verbatim>\<open>get\<close> is not
  shadowed, a key that is not stored reads as \<^verbatim>\<open>undefined\<close>, and \<^verbatim>\<open>get()\<close> returns what
  is stored.\<close>

lemma get_unstored:
  assumes "\<not> has_key (properties sa) ''get''" and "storage sa = Area a"
  shows "\<not> has_key (store w a) key \<Longrightarrow> \<not> inherited key \<Longrightarrow>
           fst (get sa w (Some key)) = Inr (Value JUndefined)"
    and "fst (get sa w None) = Inr (Items (store w a))"
  using assms
  by (simp_all add: get_def get_body_def method_call_unshadowed backend_get_def
      backend_get_all_def filter_absent obj_get_def)

text \<open>
  Claim C6 at \<^verbatim>\<open>get('toString')\<close> where the area holds \<^verbatim>\<open>{a: 1}\<close>: the key is not
  stored, yet \<^verbatim>\<open>get\<close> resolves to the member that the object read from the backend
  inherits, not to \<^verbatim>\<open>undefined\<close>, and \<^verbatim>\<open>isDefined\<close> resolves to \<^verbatim>\<open>true\<close>.
\<close>

theorem get_inherited_name_is_defined:
  "\<not> has_key (store ex_world AreaLocal) ''toString'' \<and>
   get ex_sa ex_world (Some ''toString'') =
     (Inr (Value (JProto ''toString'')), ex_sa, ex_world\<lparr>calls := [BGet AreaLocal ''toString'']\<rparr>) \<and>
   fst (isDefined ex_sa ex_world ''toString'') = Inr True"
  by (simp add: isDefined_def isDefined_body_def get_def get_body_def backend_get_def
      ex_sa_def ex_world_def eval_defs)

section \<open>Accessors are memoized\<close>

text \<open>Whatever \<^verbatim>\<open>accessor\<close> returns, it returns again.\<close>

lemma accessor_again:
  assumes "accessor sa w key = (Inr v, sa1, w1)"
  shows "accessor sa1 w1 key = (Inr v, sa1, w1)"
proof (cases "acc_lookup (accessors sa) key")
  case (Some v')
  with assms show ?thesis
    by (auto simp: accessor_def accessor_body_def split: if_splits)
next
  case None
  then have ni: "\<not> inherited key" by (auto simp: acc_lookup_def split: option.splits if_splits)
  from assms None have m: "makeAccessor sa w key = (Inr v, sa1, w1)"
    and p: "\<not> has_key (properties sa) ''accessor''"
    by (auto simp: accessor_def accessor_body_def call_makeAccessor_def
        split: if_splits option.splits)
  from m have "properties sa1 = properties sa"
    and "accessors sa1 = AList.update key (length (heap w)) (accessors sa)"
    and "v = ARef (length (heap w))"
    using not_inherited_proto [OF ni] by (auto simp: makeAccessor_def Let_def obj_set_def)
  with p show ?thesis
    by (simp add: accessor_def accessor_body_def acc_lookup_def update_conv')
qed

text \<open>Away from the inherited names and on an instance whose methods are not shadowed,
  the first \<^verbatim>\<open>accessor(key)\<close> allocates one accessor object, with that key and the value
  the defaults have for it.\<close>

lemma accessor_first:
  assumes "\<not> has_key (properties sa) ''accessor''"
    and "\<not> has_key (properties sa) ''_makeAccessor''"
    and "\<not> has_key (accessors sa) key" and "\<not> inherited key"
  shows "accessor sa w key =
           (Inr (ARef (length (heap w))),
            sa\<lparr>accessors := AList.update key (length (heap w)) (accessors sa)\<rparr>,
            w\<lparr>heap := heap w @ [\<lparr>acc_key = key, acc_default = obj_get (defaults sa) key\<rparr>]\<rparr>)"
  using assms not_inherited_proto [of key]
  by (simp add: accessor_def accessor_body_def call_makeAccessor_def makeAccessor_def
      acc_lookup_def obj_set_def has_key_map_of Let_def)

text \<open>
  Claim C7 at \<^verbatim>\<open>accessor('toString')\<close>: the call returns the member that \<^verbatim>\<open>_accessors\<close>
  inherits; no accessor is created and none is memoized, at the first call or later.
  And on the instance made from the defaults \<^verbatim>\<open>{accessor: 1}\<close>, \<^verbatim>\<open>accessor('a')\<close> returns
  nothing: the generated property \<^verbatim>\<open>accessor\<close> shadows the method and its getter calls
  itself until the stack overflows.
\<close>

theorem accessor_inherited_name_not_created:
  "accessor ex_sa ex_world ''toString'' = (Inr (AProto ''toString''), ex_sa, ex_world) \<and>
   accessors ex_sa = [] \<and> heap ex_world = [] \<and>
   (case create ex_hop ex_opts_acc ex_world0 0 of
      Inl e \<Rightarrow> False
    | Inr (sa, w) \<Rightarrow>
        accessor sa w ''a'' = (Inl (RangeError ''Maximum call stack size exceeded''), sa, w))"
  by (simp add: ex_sa_def ex_world_def create_def ex_opts_acc_def STORAGE_AREAS_def
      makeProperties_def defaults_hasOwnProperty_def this_hasOwnProperty_def own_fields_def
      eval_defs)

text \<open>
  Claim C10 at \<^verbatim>\<open>accessor('constructor')\<close> on the instance made by \<^verbatim>\<open>create\<close> from the
  defaults \<^verbatim>\<open>{a: 2, b: 3}\<close>: the key is outside the defaults, and the call returns the
  member that \<^verbatim>\<open>_accessors\<close> inherits: no accessor object with that key is allocated.
\<close>

theorem accessor_outside_schema_inherited:
  "create ex_hop ex_opts ex_world0 0 = Inr (ex_sa, ex_world) \<and>
   \<not> has_key (defaults ex_sa) ''constructor'' \<and>
   accessor ex_sa ex_world ''constructor'' = (Inr (AProto ''constructor''), ex_sa, ex_world) \<and>
   heap ex_world = []"
  using ex_create by (simp add: ex_sa_def ex_world_def eval_defs)

end
